theory Spec2Isabelle
  imports Main
begin

section \<open>Cloud File Upload API: a shallow embedding of main.py\<close>

text \<open>
  The service forwards an uploaded file to AWS S3, Google Cloud Storage and Google
  Drive. Every endpoint is a function of the configuration, of the vendor libraries
  (taken as parameters) and of a state that holds what the endpoint mutates: the journal
  of library calls made so far, the process environment variable the GCS client
  constructor writes, and the cursor of the uploaded file.
\<close>

subsection \<open>Python values\<close>

type_synonym bytes = string

text \<open>Truthiness of an \<open>Optional[str]\<close>: \<open>None\<close> and the empty string are falsy.\<close>

fun truthy :: "string option \<Rightarrow> bool" where
  "truthy None = False"
| "truthy (Some s) = (s \<noteq> [])"

text \<open>\<open>a and b\<close> evaluates to \<open>a\<close> when \<open>a\<close> is falsy and to \<open>b\<close> otherwise.\<close>

definition py_and :: "string option \<Rightarrow> string option \<Rightarrow> string option" where
  "py_and a b = (if truthy a then b else a)"

text \<open>An \<open>Optional[str]\<close> interpolated into an f-string.\<close>

fun fmt :: "string option \<Rightarrow> string" where
  "fmt None = ''None''"
| "fmt (Some s) = s"

definition apos :: string where
  "apos = [CHR 0x27]"

datatype jval = JNull | JBool bool | JStr string | JInt int

type_synonym jdict = "(string \<times> jval) list"

fun jopt :: "string option \<Rightarrow> jval" where
  "jopt None = JNull"
| "jopt (Some s) = JStr s"

text \<open>
  \<open>d[k] = v\<close> on an insertion-ordered dict: an existing key keeps its place, a new
  key goes to the end.
\<close>

fun dict_set :: "'k \<Rightarrow> 'v \<Rightarrow> ('k \<times> 'v) list \<Rightarrow> ('k \<times> 'v) list" where
  "dict_set k v [] = [(k, v)]"
| "dict_set k v (p # ps) = (if fst p = k then (k, v) # ps else p # dict_set k v ps)"

subsection \<open>Configuration\<close>

record CloudConfig =
  AWS_ACCESS_KEY_ID :: "string option"
  AWS_SECRET_ACCESS_KEY :: "string option"
  AWS_REGION :: string
  S3_BUCKET_NAME :: "string option"
  GCS_BUCKET_NAME :: "string option"
  GOOGLE_APPLICATION_CREDENTIALS :: "string option"
  GOOGLE_DRIVE_CREDENTIALS_FILE :: "string option"
  GOOGLE_DRIVE_TOKEN_FILE :: string
  GOOGLE_DRIVE_FOLDER_ID :: "string option"

text \<open>\<open>os.getenv(name, default)\<close> over the process environment at import time.\<close>

definition getenv_default :: "(string \<rightharpoonup> string) \<Rightarrow> string \<Rightarrow> string \<Rightarrow> string" where
  "getenv_default environ name dflt = (case environ name of None \<Rightarrow> dflt | Some v \<Rightarrow> v)"

definition load_config :: "(string \<rightharpoonup> string) \<Rightarrow> CloudConfig" where
  "load_config environ =
     \<lparr> AWS_ACCESS_KEY_ID = environ ''AWS_ACCESS_KEY_ID'',
       AWS_SECRET_ACCESS_KEY = environ ''AWS_SECRET_ACCESS_KEY'',
       AWS_REGION = getenv_default environ ''AWS_REGION'' ''us-east-1'',
       S3_BUCKET_NAME = environ ''S3_BUCKET_NAME'',
       GCS_BUCKET_NAME = environ ''GCS_BUCKET_NAME'',
       GOOGLE_APPLICATION_CREDENTIALS = environ ''GOOGLE_APPLICATION_CREDENTIALS'',
       GOOGLE_DRIVE_CREDENTIALS_FILE = environ ''GOOGLE_DRIVE_CREDENTIALS_FILE'',
       GOOGLE_DRIVE_TOKEN_FILE = getenv_default environ ''GOOGLE_DRIVE_TOKEN_FILE'' ''token.json'',
       GOOGLE_DRIVE_FOLDER_ID = environ ''GOOGLE_DRIVE_FOLDER_ID'' \<rparr>"

subsection \<open>Requests, responses, exceptions\<close>

text \<open>
  The immutable part of a FastAPI \<open>UploadFile\<close>; its read cursor lives in the state.
\<close>

record UploadFile =
  filename :: "string option"
  content_type :: "string option"
  content :: bytes

record UploadResponse =
  success :: bool
  message :: string
  file_url :: "string option"
  file_id :: "string option"

text \<open>\<open>UploadResponse.dict()\<close>: every declared field, in declaration order.\<close>

definition dict :: "UploadResponse \<Rightarrow> jdict" where
  "dict r = [(''success'', JBool (success r)), (''message'', JStr (message r)),
             (''file_url'', jopt (file_url r)), (''file_id'', jopt (file_id r))]"

text \<open>
  Instances of Python's \<open>Exception\<close>. The three classes the handlers tell apart are
  constructors of their own; every other exception a library raises is
  \<open>OtherException\<close>. A vendor exception carries its \<open>str()\<close> rendering.
\<close>

datatype exn =
    NoCredentialsError string
  | ClientError string
  | HTTPException nat string
  | OtherException string

subsection \<open>Vendor objects and the journal of library calls\<close>

record creds =
  valid :: bool
  expired :: bool
  refresh_token :: "string option"

record file_metadata =
  name :: "string option"
  parents :: "string list option"

text \<open>\<open>MediaIoBaseUpload(io.BytesIO(data), mimetype=..., resumable=...)\<close>.\<close>

record media =
  data :: bytes
  mimetype :: "string option"
  resumable :: bool

text \<open>
  An entry of an S3 listing; a field is \<open>None\<close> when the key is missing from the dict.
  \<open>LastModified\<close> holds the \<open>isoformat()\<close> of the datetime.
\<close>

record s3_object =
  Key :: "string option"
  Size :: "int option"
  LastModified :: "string option"

text \<open>A GCS blob; \<open>updated\<close> holds the \<open>isoformat()\<close> of the datetime, when there is one.\<close>

record gcs_blob =
  blob_name :: "string option"
  blob_size :: "int option"
  blob_updated :: "string option"

type_synonym drive_file = "(string \<times> string) list"

text \<open>
  One constructor per call into a library that leaves the process or reads the file
  system, with the arguments main.py passes.
\<close>

datatype call =
    Boto3_client "string option" "string option" string
  | S3_put_object "string option" "string option" bytes "string option"
  | S3_list_objects_v2 "string option"
  | Gcs_Client "string option"
  | Gcs_upload_from_string "string option" "string option" bytes "string option"
  | Gcs_list_blobs "string option"
  | Os_path_exists string
  | From_authorized_user_file string "string list"
  | Creds_refresh creds
  | Drive_build string string creds
  | Drive_files_create file_metadata media string
  | Drive_files_list "string option" nat string

text \<open>
  The libraries, as parameters: each answers a call given the calls made before it, so a
  vendor may fail on the first call and succeed on the second. \<open>http_exception_str\<close>
  is the framework's \<open>str()\<close> of an \<open>HTTPException\<close>.
\<close>

record libs =
  http_exception_str :: "nat \<Rightarrow> string \<Rightarrow> string"
  boto3_client :: "call list \<Rightarrow> call \<Rightarrow> exn + unit"
  s3_put_object :: "call list \<Rightarrow> call \<Rightarrow> exn + unit"
  s3_list_objects_v2 :: "call list \<Rightarrow> call \<Rightarrow> exn + s3_object list option"
  gcs_Client :: "call list \<Rightarrow> call \<Rightarrow> exn + unit"
  gcs_upload_from_string :: "call list \<Rightarrow> call \<Rightarrow> exn + unit"
  gcs_list_blobs :: "call list \<Rightarrow> call \<Rightarrow> exn + gcs_blob list"
  os_path_exists :: "call list \<Rightarrow> call \<Rightarrow> exn + bool"
  from_authorized_user_file :: "call list \<Rightarrow> call \<Rightarrow> exn + creds"
  creds_refresh :: "call list \<Rightarrow> call \<Rightarrow> exn + creds"
  drive_build :: "call list \<Rightarrow> call \<Rightarrow> exn + unit"
  drive_files_create :: "call list \<Rightarrow> call \<Rightarrow> exn + drive_file"
  drive_files_list :: "call list \<Rightarrow> call \<Rightarrow> exn + drive_file list option"

fun str_exn :: "libs \<Rightarrow> exn \<Rightarrow> string" where
  "str_exn env (NoCredentialsError m) = m"
| "str_exn env (ClientError m) = m"
| "str_exn env (HTTPException code detail) = http_exception_str env code detail"
| "str_exn env (OtherException m) = m"

subsection \<open>State and control flow\<close>

record state =
  calls :: "call list"
  environ_GOOGLE_APPLICATION_CREDENTIALS :: "string option"
  cursor :: nat

text \<open>A computation returns a value or raises, and leaves a state either way.\<close>

type_synonym 'a io = "state \<Rightarrow> (exn + 'a) \<times> state"

definition py_return :: "'a \<Rightarrow> 'a io" where
  "py_return x s = (Inr x, s)"

definition py_raise :: "exn \<Rightarrow> 'a io" where
  "py_raise e s = (Inl e, s)"

definition then_do :: "'a io \<Rightarrow> ('a \<Rightarrow> 'b io) \<Rightarrow> 'b io" where
  "then_do m k s = (case m s of (Inl e, s') \<Rightarrow> (Inl e, s') | (Inr x, s') \<Rightarrow> k x s')"

text \<open>\<open>try: m except Exception as e: handler(e)\<close>.\<close>

definition try_except :: "'a io \<Rightarrow> (exn \<Rightarrow> 'a io) \<Rightarrow> 'a io" where
  "try_except m handler s = (case m s of (Inl e, s') \<Rightarrow> handler e s' | (Inr x, s') \<Rightarrow> (Inr x, s'))"

text \<open>A library call: the library answers from the journal, the call is appended to it.\<close>

definition invoke :: "(call list \<Rightarrow> call \<Rightarrow> exn + 'a) \<Rightarrow> call \<Rightarrow> 'a io" where
  "invoke f c s = (f (calls s) c, s\<lparr>calls := calls s @ [c]\<rparr>)"

text \<open>\<open>await file.read()\<close>: the bytes from the cursor to the end; the cursor moves there.\<close>

definition file_read :: "UploadFile \<Rightarrow> bytes io" where
  "file_read file s = (Inr (drop (cursor s) (content file)),
                       s\<lparr>cursor := max (cursor s) (length (content file))\<rparr>)"

definition file_seek :: "nat \<Rightarrow> unit io" where
  "file_seek n s = (Inr (), s\<lparr>cursor := n\<rparr>)"

text \<open>
  Writing and reading \<open>os.environ["GOOGLE_APPLICATION_CREDENTIALS"]\<close>; the GCS client
  constructor takes no argument and reads the variable itself.
\<close>

definition set_environ :: "string option \<Rightarrow> unit io" where
  "set_environ v s = (Inr (), s\<lparr>environ_GOOGLE_APPLICATION_CREDENTIALS := v\<rparr>)"

definition get_environ :: "string option io" where
  "get_environ s = (Inr (environ_GOOGLE_APPLICATION_CREDENTIALS s), s)"

subsection \<open>Vendor clients\<close>

definition get_s3_client :: "CloudConfig \<Rightarrow> libs \<Rightarrow> unit io" where
  "get_s3_client cfg env =
     try_except
       (invoke (boto3_client env)
          (Boto3_client (AWS_ACCESS_KEY_ID cfg) (AWS_SECRET_ACCESS_KEY cfg) (AWS_REGION cfg)))
       (\<lambda>e. py_raise (HTTPException 500 (''Failed to initialize S3 client: '' @ str_exn env e)))"

definition get_gcs_client :: "CloudConfig \<Rightarrow> libs \<Rightarrow> unit io" where
  "get_gcs_client cfg env =
     try_except
       (then_do (if truthy (GOOGLE_APPLICATION_CREDENTIALS cfg)
                 then set_environ (GOOGLE_APPLICATION_CREDENTIALS cfg)
                 else py_return ()) (\<lambda>_.
        then_do get_environ (\<lambda>gac.
        invoke (gcs_Client env) (Gcs_Client gac))))
       (\<lambda>e. py_raise (HTTPException 500 (''Failed to initialize GCS client: '' @ str_exn env e)))"

definition get_drive_service :: "libs \<Rightarrow> unit io" where
  "get_drive_service env =
     try_except
       (let token_path = ''cred/drive/token.json'';
            creds_file = ''cred/drive/credentials.json'';
            scopes = [''https://www.googleapis.com/auth/drive.file'']
        in
        then_do (invoke (os_path_exists env) (Os_path_exists token_path)) (\<lambda>token_exists.
        then_do (if token_exists
                 then then_do (invoke (from_authorized_user_file env)
                                 (From_authorized_user_file token_path scopes))
                        (\<lambda>c. py_return (Some c))
                 else py_return None) (\<lambda>creds.
        then_do (case creds of
                   None \<Rightarrow> py_raise (HTTPException 401
                     ''Google Drive authentication required. Please run google_auth_flow.py to authenticate.'')
                 | Some c \<Rightarrow>
                     if \<not> valid c then
                       (if expired c \<and> truthy (refresh_token c)
                        then invoke (creds_refresh env) (Creds_refresh c)
                        else py_raise (HTTPException 401
                          ''Google Drive authentication required. Please run google_auth_flow.py to authenticate.''))
                     else py_return c) (\<lambda>c.
        invoke (drive_build env) (Drive_build ''drive'' ''v3'' c)))))
       (\<lambda>e. py_raise (HTTPException 500 (''Failed to initialize Drive service: '' @ str_exn env e)))"

subsection \<open>Upload endpoints\<close>

text \<open>
  What stays inside the process is not journalled: \<open>client.bucket(...)\<close> and
  \<open>bucket.blob(...)\<close> build handles whose names reach GCS with \<open>upload_from_string\<close>,
  \<open>MediaIoBaseUpload\<close> wraps the bytes, and \<open>service.files().create(...)\<close> builds the
  request that \<open>execute()\<close> sends. Reading and seeking the spooled upload file do not
  raise.
\<close>

definition upload_to_s3 :: "CloudConfig \<Rightarrow> libs \<Rightarrow> UploadFile \<Rightarrow> UploadResponse io" where
  "upload_to_s3 cfg env file =
     (if \<not> truthy (S3_BUCKET_NAME cfg)
      then py_raise (HTTPException 500 ''S3 bucket name not configured'')
      else
        try_except
          (then_do (get_s3_client cfg env) (\<lambda>s3_client.
           then_do (file_read file) (\<lambda>file_content.
           then_do (invoke (s3_put_object env)
                      (S3_put_object (S3_BUCKET_NAME cfg) (filename file) file_content
                         (content_type file))) (\<lambda>_.
           let file_url = ''https://'' @ fmt (S3_BUCKET_NAME cfg) @ ''.s3.'' @ AWS_REGION cfg
                            @ ''.amazonaws.com/'' @ fmt (filename file)
           in py_return
                \<lparr> success = True,
                  message = ''File '' @ apos @ fmt (filename file) @ apos
                              @ '' uploaded successfully to S3'',
                  file_url = Some file_url,
                  file_id = None \<rparr>))))
          (\<lambda>e. case e of
                  NoCredentialsError _ \<Rightarrow>
                    py_raise (HTTPException 401 ''AWS credentials not found'')
                | ClientError _ \<Rightarrow>
                    py_raise (HTTPException 500 (''S3 upload failed: '' @ str_exn env e))
                | _ \<Rightarrow>
                    py_raise (HTTPException 500 (''Upload failed: '' @ str_exn env e))))"

definition upload_to_gcs :: "CloudConfig \<Rightarrow> libs \<Rightarrow> UploadFile \<Rightarrow> UploadResponse io" where
  "upload_to_gcs cfg env file =
     (if \<not> truthy (GCS_BUCKET_NAME cfg)
      then py_raise (HTTPException 500 ''GCS bucket name not configured'')
      else
        try_except
          (then_do (get_gcs_client cfg env) (\<lambda>client.
           then_do (file_read file) (\<lambda>file_content.
           then_do (invoke (gcs_upload_from_string env)
                      (Gcs_upload_from_string (GCS_BUCKET_NAME cfg) (filename file) file_content
                         (content_type file))) (\<lambda>_.
           let file_url = ''https://storage.googleapis.com/'' @ fmt (GCS_BUCKET_NAME cfg)
                            @ ''/'' @ fmt (filename file)
           in py_return
                \<lparr> success = True,
                  message = ''File '' @ apos @ fmt (filename file) @ apos
                              @ '' uploaded successfully to GCS'',
                  file_url = Some file_url,
                  file_id = None \<rparr>))))
          (\<lambda>e. py_raise (HTTPException 500 (''GCS upload failed: '' @ str_exn env e))))"

definition upload_to_drive :: "CloudConfig \<Rightarrow> libs \<Rightarrow> UploadFile \<Rightarrow> UploadResponse io" where
  "upload_to_drive cfg env file =
     try_except
       (then_do (get_drive_service env) (\<lambda>service.
        then_do (file_read file) (\<lambda>file_content.
        let media_body = \<lparr> data = file_content, mimetype = content_type file, resumable = True \<rparr>;
            file_metadata = \<lparr> name = filename file, parents = None \<rparr>;
            file_metadata =
              (case GOOGLE_DRIVE_FOLDER_ID cfg of
                 None \<Rightarrow> file_metadata
               | Some folder \<Rightarrow>
                   if folder \<noteq> [] then file_metadata\<lparr>parents := Some [folder]\<rparr>
                   else file_metadata)
        in
        then_do (invoke (drive_files_create env)
                   (Drive_files_create file_metadata media_body ''id,webViewLink,webContentLink''))
          (\<lambda>uploaded_file.
        py_return
          \<lparr> success = True,
            message = ''File '' @ apos @ fmt (filename file) @ apos
                        @ '' uploaded successfully to Google Drive'',
            file_url = map_of uploaded_file ''webViewLink'',
            file_id = map_of uploaded_file ''id'' \<rparr>))))
       (\<lambda>e. py_raise (HTTPException 500 (''Google Drive upload failed: '' @ str_exn env e)))"

record all_response =
  results :: "(string \<times> jdict) list"

definition upload_to_all_services :: "CloudConfig \<Rightarrow> libs \<Rightarrow> UploadFile \<Rightarrow> all_response io" where
  "upload_to_all_services cfg env file =
     then_do (py_return []) (\<lambda>results.
     then_do
       (if truthy (py_and (S3_BUCKET_NAME cfg) (AWS_ACCESS_KEY_ID cfg))
        then try_except
               (then_do (file_seek 0) (\<lambda>_.
                then_do (upload_to_s3 cfg env file) (\<lambda>s3_result.
                py_return (dict_set ''s3'' (dict s3_result) results))))
               (\<lambda>e. py_return (dict_set ''s3''
                       [(''success'', JBool False), (''message'', JStr (str_exn env e))] results))
        else py_return results) (\<lambda>results.
     then_do
       (if truthy (GCS_BUCKET_NAME cfg)
        then try_except
               (then_do (file_seek 0) (\<lambda>_.
                then_do (upload_to_gcs cfg env file) (\<lambda>gcs_result.
                py_return (dict_set ''gcs'' (dict gcs_result) results))))
               (\<lambda>e. py_return (dict_set ''gcs''
                       [(''success'', JBool False), (''message'', JStr (str_exn env e))] results))
        else py_return results) (\<lambda>results.
     then_do
       (if truthy (GOOGLE_DRIVE_CREDENTIALS_FILE cfg)
        then try_except
               (then_do (file_seek 0) (\<lambda>_.
                then_do (upload_to_drive cfg env file) (\<lambda>drive_result.
                py_return (dict_set ''drive'' (dict drive_result) results))))
               (\<lambda>e. py_return (dict_set ''drive''
                       [(''success'', JBool False), (''message'', JStr (str_exn env e))] results))
        else py_return results) (\<lambda>results.
     py_return \<lparr> results = results \<rparr>))))"

subsection \<open>Listing endpoints\<close>

text \<open>
  The loop over \<open>response.get('Contents', [])\<close>; \<open>obj["Key"]\<close> on a dict without
  the key raises \<open>KeyError\<close>, whose \<open>str()\<close> is the quoted key.
\<close>

fun s3_files :: "s3_object list \<Rightarrow> jdict list \<Rightarrow> jdict list io" where
  "s3_files [] files = py_return files"
| "s3_files (obj # objs) files =
     (case Key obj of
        None \<Rightarrow> py_raise (OtherException (apos @ ''Key'' @ apos))
      | Some k \<Rightarrow>
     (case Size obj of
        None \<Rightarrow> py_raise (OtherException (apos @ ''Size'' @ apos))
      | Some n \<Rightarrow>
     (case LastModified obj of
        None \<Rightarrow> py_raise (OtherException (apos @ ''LastModified'' @ apos))
      | Some t \<Rightarrow>
          s3_files objs
            (files @ [[(''key'', JStr k), (''size'', JInt n), (''last_modified'', JStr t)]]))))"

fun gcs_files :: "gcs_blob list \<Rightarrow> jdict list \<Rightarrow> jdict list" where
  "gcs_files [] files = files"
| "gcs_files (blob # blobs) files =
     gcs_files blobs
       (files @ [[(''name'', jopt (blob_name blob)),
                  (''size'', (case blob_size blob of None \<Rightarrow> JNull | Some n \<Rightarrow> JInt n)),
                  (''updated'', jopt (blob_updated blob))]])"

record 'a files_response =
  files :: "'a list"

definition list_s3_files :: "CloudConfig \<Rightarrow> libs \<Rightarrow> jdict files_response io" where
  "list_s3_files cfg env =
     (if \<not> truthy (S3_BUCKET_NAME cfg)
      then py_raise (HTTPException 500 ''S3 bucket name not configured'')
      else
        try_except
          (then_do (get_s3_client cfg env) (\<lambda>s3_client.
           then_do (invoke (s3_list_objects_v2 env) (S3_list_objects_v2 (S3_BUCKET_NAME cfg)))
             (\<lambda>response.
           then_do (s3_files (case response of None \<Rightarrow> [] | Some objs \<Rightarrow> objs) [])
             (\<lambda>files.
           py_return \<lparr> files = files \<rparr>))))
          (\<lambda>e. py_raise (HTTPException 500 (''Failed to list S3 files: '' @ str_exn env e))))"

definition list_gcs_files :: "CloudConfig \<Rightarrow> libs \<Rightarrow> jdict files_response io" where
  "list_gcs_files cfg env =
     (if \<not> truthy (GCS_BUCKET_NAME cfg)
      then py_raise (HTTPException 500 ''GCS bucket name not configured'')
      else
        try_except
          (then_do (get_gcs_client cfg env) (\<lambda>client.
           then_do (invoke (gcs_list_blobs env) (Gcs_list_blobs (GCS_BUCKET_NAME cfg)))
             (\<lambda>blobs.
           py_return \<lparr> files = gcs_files blobs [] \<rparr>)))
          (\<lambda>e. py_raise (HTTPException 500 (''Failed to list GCS files: '' @ str_exn env e))))"

definition list_drive_files :: "CloudConfig \<Rightarrow> libs \<Rightarrow> drive_file files_response io" where
  "list_drive_files cfg env =
     try_except
       (then_do (get_drive_service env) (\<lambda>service.
        let query = None;
            query = (if truthy (GOOGLE_DRIVE_FOLDER_ID cfg)
                     then Some (apos @ fmt (GOOGLE_DRIVE_FOLDER_ID cfg) @ apos @ '' in parents'')
                     else query)
        in
        then_do (invoke (drive_files_list env)
                   (Drive_files_list query 20
                      ''files(id, name, mimeType, modifiedTime, size, webViewLink)''))
          (\<lambda>listing.
        py_return \<lparr> files = (case listing of None \<Rightarrow> [] | Some fs \<Rightarrow> fs) \<rparr>)))
       (\<lambda>e. py_raise (HTTPException 500 (''Failed to list Drive files: '' @ str_exn env e)))"

subsection \<open>Health endpoint\<close>

record services =
  s3_configured :: bool
  gcs_configured :: bool
  drive_configured :: bool

record health_response =
  status :: string
  services :: services

definition health_check :: "CloudConfig \<Rightarrow> health_response" where
  "health_check cfg =
     \<lparr> status = ''healthy'',
       services =
         \<lparr> s3_configured = truthy (py_and (S3_BUCKET_NAME cfg) (AWS_ACCESS_KEY_ID cfg)),
           gcs_configured = truthy (GCS_BUCKET_NAME cfg),
           drive_configured = truthy (GOOGLE_DRIVE_CREDENTIALS_FILE cfg) \<rparr> \<rparr>"

subsection \<open>Observations on responses and on the journal\<close>

text \<open>The backend a library call belongs to.\<close>

fun backend_of :: "call \<Rightarrow> string" where
  "backend_of (Boto3_client _ _ _) = ''s3''"
| "backend_of (S3_put_object _ _ _ _) = ''s3''"
| "backend_of (S3_list_objects_v2 _) = ''s3''"
| "backend_of (Gcs_Client _) = ''gcs''"
| "backend_of (Gcs_upload_from_string _ _ _ _) = ''gcs''"
| "backend_of (Gcs_list_blobs _) = ''gcs''"
| "backend_of (Os_path_exists _) = ''drive''"
| "backend_of (From_authorized_user_file _ _) = ''drive''"
| "backend_of (Creds_refresh _) = ''drive''"
| "backend_of (Drive_build _ _ _) = ''drive''"
| "backend_of (Drive_files_create _ _ _) = ''drive''"
| "backend_of (Drive_files_list _ _ _) = ''drive''"

text \<open>The file name and the bytes an upload call hands to the vendor.\<close>

fun upload_payload :: "call \<Rightarrow> (string option \<times> bytes) option" where
  "upload_payload (S3_put_object bucket key body ctype) = Some (key, body)"
| "upload_payload (Gcs_upload_from_string bucket blob body ctype) = Some (blob, body)"
| "upload_payload (Drive_files_create metadata media_body requested) =
     Some (name metadata, data media_body)"
| "upload_payload _ = None"

fun payloads :: "call list \<Rightarrow> (string option \<times> bytes) list" where
  "payloads [] = []"
| "payloads (c # cs) =
     (case upload_payload c of None \<Rightarrow> payloads cs | Some p \<Rightarrow> p # payloads cs)"

text \<open>The paths of the file system a call consults.\<close>

fun path_of :: "call \<Rightarrow> string option" where
  "path_of (Os_path_exists path) = Some path"
| "path_of (From_authorized_user_file path scopes) = Some path"
| "path_of _ = None"

fun paths_consulted :: "call list \<Rightarrow> string list" where
  "paths_consulted [] = []"
| "paths_consulted (c # cs) =
     (case path_of c of None \<Rightarrow> paths_consulted cs | Some p \<Rightarrow> p # paths_consulted cs)"

text \<open>The calls made between two states of one run.\<close>

definition journal_since :: "state \<Rightarrow> state \<Rightarrow> call list" where
  "journal_since s s' = drop (length (calls s)) (calls s')"

text \<open>An entry of the aggregate result reports a failure.\<close>

definition failed :: "jdict \<Rightarrow> bool" where
  "failed d = (map_of d ''success'' = Some (JBool False))"

text \<open>The configured backends, by the flags of the health endpoint, in registration order.\<close>

definition configured :: "CloudConfig \<Rightarrow> string list" where
  "configured cfg =
     (if s3_configured (services (health_check cfg)) then [''s3''] else [])
     @ (if gcs_configured (services (health_check cfg)) then [''gcs''] else [])
     @ (if drive_configured (services (health_check cfg)) then [''drive''] else [])"

subsection \<open>The dispatcher of the specification\<close>

text \<open>
  The specification's \<open>uploadAll\<close>: invoke every configured adapter, in registration
  order, on the same request read from its start, and collect each outcome under its
  backend; no outcome stops the run.
\<close>

definition adapters :: "CloudConfig \<Rightarrow> libs \<Rightarrow> UploadFile \<Rightarrow> (string \<times> UploadResponse io) list" where
  "adapters cfg env file =
     [(''s3'', upload_to_s3 cfg env file),
      (''gcs'', upload_to_gcs cfg env file),
      (''drive'', upload_to_drive cfg env file)]"

fun invoke_each ::
  "(string \<times> 'a io) list \<Rightarrow> state \<Rightarrow> (string \<times> (exn + 'a)) list \<times> state" where
  "invoke_each [] s = ([], s)"
| "invoke_each ((k, up) # ups) s =
     (case up (s\<lparr>cursor := 0\<rparr>) of (out, s') \<Rightarrow>
        (case invoke_each ups s' of (outs, s'') \<Rightarrow> ((k, out) # outs, s'')))"

definition uploadAll ::
  "CloudConfig \<Rightarrow> libs \<Rightarrow> UploadFile \<Rightarrow> state \<Rightarrow> (string \<times> (exn + UploadResponse)) list \<times> state" where
  "uploadAll cfg env file =
     invoke_each (filter (\<lambda>a. fst a \<in> set (configured cfg)) (adapters cfg env file))"

text \<open>What the endpoint stores for an outcome.\<close>

fun entry :: "libs \<Rightarrow> exn + UploadResponse \<Rightarrow> jdict" where
  "entry env (Inl e) = [(''success'', JBool False), (''message'', JStr (str_exn env e))]"
| "entry env (Inr r) = dict r"

text \<open>What one adapter adds to the journal.\<close>

definition adds :: "string \<Rightarrow> string option \<times> bytes \<Rightarrow> call list \<Rightarrow> bool" where
  "adds k p new = (new \<noteq> [] \<and> map backend_of new = replicate (length new) k
                    \<and> payloads new = replicate (length (payloads new)) p)"

text \<open>The classes of HTTP status codes the framework answers with.\<close>

definition is_client_error :: "nat \<Rightarrow> bool" where
  "is_client_error code = (400 \<le> code \<and> code < 500)"

definition is_server_error :: "nat \<Rightarrow> bool" where
  "is_server_error code = (500 \<le> code \<and> code < 600)"

subsection \<open>Concrete configurations, libraries and requests\<close>

definition cfg_none :: CloudConfig where
  "cfg_none = load_config Map.empty"

definition cfg_only_s3 :: CloudConfig where
  "cfg_only_s3 = cfg_none\<lparr> S3_BUCKET_NAME := Some ''bucket'', AWS_ACCESS_KEY_ID := Some ''AKIA'' \<rparr>"

definition cfg_all :: CloudConfig where
  "cfg_all = cfg_only_s3\<lparr> GCS_BUCKET_NAME := Some ''gbucket'',
                             GOOGLE_DRIVE_CREDENTIALS_FILE := Some ''credentials.json'' \<rparr>"

text \<open>The bucket is set and the access key is not.\<close>

definition cfg_no_key :: CloudConfig where
  "cfg_no_key = cfg_none\<lparr> S3_BUCKET_NAME := Some ''bucket'' \<rparr>"

definition a_txt :: UploadFile where
  "a_txt = \<lparr> filename = Some ''a.txt'', content_type = Some ''text/plain'', content = ''hello'' \<rparr>"

definition fresh :: state where
  "fresh = \<lparr> calls = [], environ_GOOGLE_APPLICATION_CREDENTIALS = None, cursor = 0 \<rparr>"

definition token :: creds where
  "token = \<lparr> valid = True, expired = False, refresh_token = None \<rparr>"

text \<open>Libraries whose every call succeeds; Drive answers with an id and a link.\<close>

definition env_ok :: libs where
  "env_ok =
     \<lparr> http_exception_str = (\<lambda>code detail. detail),
       boto3_client = (\<lambda>_ _. Inr ()),
       s3_put_object = (\<lambda>_ _. Inr ()),
       s3_list_objects_v2 = (\<lambda>_ _. Inr None),
       gcs_Client = (\<lambda>_ _. Inr ()),
       gcs_upload_from_string = (\<lambda>_ _. Inr ()),
       gcs_list_blobs = (\<lambda>_ _. Inr []),
       os_path_exists = (\<lambda>_ _. Inr True),
       from_authorized_user_file = (\<lambda>_ _. Inr token),
       creds_refresh = (\<lambda>_ _. Inr token),
       drive_build = (\<lambda>_ _. Inr ()),
       drive_files_create = (\<lambda>_ _. Inr [(''id'', ''1''), (''webViewLink'', ''https://drive.google.com/file/d/1/view'')]),
       drive_files_list = (\<lambda>_ _. Inr None) \<rparr>"

text \<open>The same, but the Drive response to \<open>create\<close> carries no \<open>webViewLink\<close>.\<close>

definition env_no_link :: libs where
  "env_no_link = env_ok\<lparr> drive_files_create := (\<lambda>_ _. Inr [(''id'', ''1'')]) \<rparr>"

text \<open>The same, but S3 refuses the object.\<close>

definition env_s3_denied :: libs where
  "env_s3_denied = env_ok\<lparr> s3_put_object := (\<lambda>_ _. Inl (ClientError ''AccessDenied'')) \<rparr>"

section \<open>Properties\<close>

subsection \<open>The fan-out endpoint refines the dispatcher\<close>

lemmas io_defs = then_do_def try_except_def py_return_def py_raise_def invoke_def
  file_read_def file_seek_def set_environ_def get_environ_def

lemma guarded_block:
  "try_except
     (then_do (file_seek 0) (\<lambda>_. then_do up (\<lambda>r. py_return (dict_set k (dict r) rs))))
     (\<lambda>e. py_return (dict_set k [(''success'', JBool False), (''message'', JStr (str_exn env e))] rs)) s
   = (Inr (dict_set k (entry env (fst (up (s\<lparr>cursor := 0\<rparr>)))) rs), snd (up (s\<lparr>cursor := 0\<rparr>)))"
  by (simp add: try_except_def then_do_def file_seek_def py_return_def
      split: prod.splits sum.splits)

lemma upload_all_refines:
  "upload_to_all_services cfg env file s =
     (Inr \<lparr> results = map (\<lambda>(k, out). (k, entry env out)) (fst (uploadAll cfg env file s)) \<rparr>,
      snd (uploadAll cfg env file s))"
proof -
  have run: "upload_to_all_services cfg env file s =
    (let c1 = truthy (py_and (S3_BUCKET_NAME cfg) (AWS_ACCESS_KEY_ID cfg));
         c2 = truthy (GCS_BUCKET_NAME cfg);
         c3 = truthy (GOOGLE_DRIVE_CREDENTIALS_FILE cfg);
         a1 = upload_to_s3 cfg env file (s\<lparr>cursor := 0\<rparr>);
         r1 = (if c1 then dict_set ''s3'' (entry env (fst a1)) [] else []);
         s1 = (if c1 then snd a1 else s);
         a2 = upload_to_gcs cfg env file (s1\<lparr>cursor := 0\<rparr>);
         r2 = (if c2 then dict_set ''gcs'' (entry env (fst a2)) r1 else r1);
         s2 = (if c2 then snd a2 else s1);
         a3 = upload_to_drive cfg env file (s2\<lparr>cursor := 0\<rparr>);
         r3 = (if c3 then dict_set ''drive'' (entry env (fst a3)) r2 else r2);
         s3 = (if c3 then snd a3 else s2)
     in (Inr \<lparr> results = r3 \<rparr>, s3))"
    unfolding upload_to_all_services_def Let_def
    by (simp add: guarded_block then_do_def py_return_def del: dict_set.simps)
  show ?thesis
    unfolding run Let_def
    by (simp add: uploadAll_def adapters_def configured_def health_check_def split: prod.splits)
qed

subsection \<open>What each adapter adds to the journal\<close>

lemma payloads_append [simp]: "payloads (cs @ ds) = payloads cs @ payloads ds"
  by (induction cs) (simp_all split: option.splits)

lemma paths_consulted_append [simp]:
  "paths_consulted (cs @ ds) = paths_consulted cs @ paths_consulted ds"
  by (induction cs) (simp_all split: option.splits)

lemma get_s3_client_journal:
  "\<exists>c. calls (snd (get_s3_client cfg env s)) = calls s @ [c] \<and> backend_of c = ''s3'' \<and> upload_payload c = None
       \<and> cursor (snd (get_s3_client cfg env s)) = cursor s"
  by (auto simp: get_s3_client_def io_defs split: prod.splits sum.splits)

lemma upload_to_s3_journal:
  assumes "truthy (S3_BUCKET_NAME cfg)"
  shows "\<exists>new. calls (snd (upload_to_s3 cfg env file s)) = calls s @ new
           \<and> adds ''s3'' (filename file, drop (cursor s) (content file)) new"
  using assms
  by (auto simp: upload_to_s3_def get_s3_client_def io_defs adds_def
      split: prod.splits sum.splits exn.splits)

lemma upload_to_gcs_journal:
  assumes "truthy (GCS_BUCKET_NAME cfg)"
  shows "\<exists>new. calls (snd (upload_to_gcs cfg env file s)) = calls s @ new
           \<and> adds ''gcs'' (filename file, drop (cursor s) (content file)) new"
  using assms
  by (auto simp: upload_to_gcs_def get_gcs_client_def io_defs adds_def
      split: prod.splits sum.splits exn.splits)

lemma get_drive_service_journal:
  "\<exists>new. calls (snd (get_drive_service env s)) = calls s @ new
       \<and> new \<noteq> [] \<and> map backend_of new = replicate (length new) ''drive'' \<and> payloads new = []
       \<and> set (paths_consulted new) = {''cred/drive/token.json''}
       \<and> cursor (snd (get_drive_service env s)) = cursor s"
  by (auto simp: get_drive_service_def io_defs Let_def
      split: prod.splits sum.splits option.splits if_splits)

lemma upload_to_drive_journal:
  "\<exists>new. calls (snd (upload_to_drive cfg env file s)) = calls s @ new
       \<and> adds ''drive'' (filename file, drop (cursor s) (content file)) new
       \<and> set (paths_consulted new) = {''cred/drive/token.json''}"
proof -
  obtain o1 s1 where g: "get_drive_service env s = (o1, s1)" by (cases "get_drive_service env s")
  from get_drive_service_journal[of env s] g obtain new where
    n: "calls s1 = calls s @ new" "new \<noteq> []" "map backend_of new = replicate (length new) ''drive''"
       "payloads new = []" "set (paths_consulted new) = {''cred/drive/token.json''}" "cursor s1 = cursor s"
    by auto
  show ?thesis
    using g n
    by (cases o1)
       (auto simp: upload_to_drive_def io_defs adds_def Let_def replicate_append_same
          split: prod.splits sum.splits option.splits)
qed

subsection \<open>The journal of the dispatcher\<close>

lemma invoke_each_Cons:
  "invoke_each ((k, up) # ups) s =
     ((k, fst (up (s\<lparr>cursor := 0\<rparr>))) # fst (invoke_each ups (snd (up (s\<lparr>cursor := 0\<rparr>)))),
      snd (invoke_each ups (snd (up (s\<lparr>cursor := 0\<rparr>)))))"
  by (simp split: prod.splits)

lemma invoke_each_keys: "map fst (fst (invoke_each ups s)) = map fst ups"
proof (induction ups arbitrary: s)
  case Nil
  show ?case by simp
next
  case (Cons a ups)
  obtain k up where "a = (k, up)" by (cases a)
  with Cons.IH show ?case
    by (simp add: invoke_each_Cons del: invoke_each.simps)
qed

lemma invoke_each_journal:
  assumes "\<And>k up s. (k, up) \<in> set ups \<Longrightarrow> cursor s = 0 \<Longrightarrow>
             \<exists>new. calls (snd (up s)) = calls s @ new \<and> Q k new"
  shows "\<exists>news. calls (snd (invoke_each ups s)) = calls s @ concat news
           \<and> list_all2 Q (map fst ups) news"
  using assms
proof (induction ups arbitrary: s)
  case Nil
  show ?case by simp
next
  case (Cons a ups)
  obtain k up where a: "a = (k, up)" by (cases a)
  obtain out s' where run: "up (s\<lparr>cursor := 0\<rparr>) = (out, s')"
    by (cases "up (s\<lparr>cursor := 0\<rparr>)")
  from Cons.prems[of k up "s\<lparr>cursor := 0\<rparr>"] run a
  obtain new where new: "calls s' = calls s @ new" "Q k new"
    by auto
  have "\<exists>news. calls (snd (invoke_each ups s')) = calls s' @ concat news
          \<and> list_all2 Q (map fst ups) news"
    by (rule Cons.IH) (use Cons.prems in auto)
  then obtain news where news: "calls (snd (invoke_each ups s')) = calls s' @ concat news"
      "list_all2 Q (map fst ups) news"
    by blast
  show ?case
    using run new news a
    by (intro exI[of _ "new # news"]) (simp add: invoke_each_Cons del: invoke_each.simps)
qed

lemma remdups_adj_block:
  "remdups_adj (replicate (Suc n) k @ ys) = remdups_adj (k # ys)"
  by (induction n) simp_all

lemma remdups_adj_blocks:
  assumes "list_all2 (\<lambda>k new. new \<noteq> [] \<and> map f new = replicate (length new) k) ks news"
  shows "remdups_adj (map f (concat news)) = remdups_adj ks"
  using assms
proof (induction rule: list_all2_induct)
  case Nil
  show ?case by simp
next
  case (Cons k ks new news)
  then obtain n where n: "length new = Suc n"
    by (cases new) auto
  have "remdups_adj (map f (concat (new # news))) = remdups_adj (k # map f (concat news))"
    using Cons.hyps(1) n by (simp add: remdups_adj_block del: replicate.simps)
  also have "\<dots> = remdups_adj (k # ks)"
    using Cons.IH by (simp add: remdups_adj_Cons)
  finally show ?case .
qed

lemma payloads_blocks:
  assumes "list_all2 (\<lambda>k new. payloads new = replicate (length (payloads new)) p) ks news"
  shows "payloads (concat news) = replicate (length (payloads (concat news))) p"
  using assms
proof (induction rule: list_all2_induct)
  case Nil
  show ?case by simp
next
  case (Cons k ks new news)
  have "payloads (concat (new # news)) = payloads new @ payloads (concat news)"
    by simp
  also have "\<dots> = replicate (length (payloads new)) p @ replicate (length (payloads (concat news))) p"
    using Cons.hyps(1) Cons.IH by simp
  finally show ?case
    by (simp add: replicate_add[symmetric])
qed

lemma configured_adapters_keys:
  "map fst (filter (\<lambda>a. fst a \<in> set (configured cfg)) (adapters cfg env file)) = configured cfg"
  by (simp add: adapters_def configured_def)

lemma distinct_configured: "distinct (configured cfg)"
  by (simp add: configured_def)

lemma uploadAll_keys: "map fst (fst (uploadAll cfg env file s)) = configured cfg"
  by (simp add: uploadAll_def invoke_each_keys configured_adapters_keys)

lemma configured_adapter_adds:
  assumes "(k, up) \<in> set (filter (\<lambda>a. fst a \<in> set (configured cfg)) (adapters cfg env file))"
    and "cursor s = 0"
  shows "\<exists>new. calls (snd (up s)) = calls s @ new \<and> adds k (filename file, content file) new"
proof -
  from assms(1) consider
      "k = ''s3''" "up = upload_to_s3 cfg env file" "truthy (S3_BUCKET_NAME cfg)"
    | "k = ''gcs''" "up = upload_to_gcs cfg env file" "truthy (GCS_BUCKET_NAME cfg)"
    | "k = ''drive''" "up = upload_to_drive cfg env file"
    by (auto simp: adapters_def configured_def health_check_def py_and_def split: if_splits)
  then show ?thesis
  proof cases
    case 1
    with upload_to_s3_journal[of cfg env "file" s] assms(2) show ?thesis by simp
  next
    case 2
    with upload_to_gcs_journal[of cfg env "file" s] assms(2) show ?thesis by simp
  next
    case 3
    with upload_to_drive_journal[of cfg env "file" s] assms(2) show ?thesis by auto
  qed
qed

lemma uploadAll_journal:
  "\<exists>news. calls (snd (uploadAll cfg env file s)) = calls s @ concat news
     \<and> list_all2 (\<lambda>k new. adds k (filename file, content file) new) (configured cfg) news"
proof -
  let ?ups = "filter (\<lambda>a. fst a \<in> set (configured cfg)) (adapters cfg env file)"
  have "\<exists>news. calls (snd (invoke_each ?ups s)) = calls s @ concat news
          \<and> list_all2 (\<lambda>k new. adds k (filename file, content file) new) (map fst ?ups) news"
    by (rule invoke_each_journal) (rule configured_adapter_adds)
  then show ?thesis
    by (simp add: uploadAll_def configured_adapters_keys)
qed

lemma uploadAll_journal_order:
  "calls (snd (uploadAll cfg env file s)) = calls s @ journal_since s (snd (uploadAll cfg env file s))"
  "remdups_adj (map backend_of (journal_since s (snd (uploadAll cfg env file s)))) = configured cfg"
  "payloads (journal_since s (snd (uploadAll cfg env file s)))
     = replicate (length (payloads (journal_since s (snd (uploadAll cfg env file s)))))
         (filename file, content file)"
proof -
  from uploadAll_journal[of cfg env "file" s] obtain news where
    j: "calls (snd (uploadAll cfg env file s)) = calls s @ concat news" and
    a: "list_all2 (\<lambda>k new. adds k (filename file, content file) new) (configured cfg) news"
    by blast
  from j have js: "journal_since s (snd (uploadAll cfg env file s)) = concat news"
    by (simp add: journal_since_def)
  show "calls (snd (uploadAll cfg env file s)) = calls s @ journal_since s (snd (uploadAll cfg env file s))"
    using j js by simp
  have "list_all2 (\<lambda>k new. new \<noteq> [] \<and> map backend_of new = replicate (length new) k) (configured cfg) news"
    using a by (rule list_all2_mono) (simp add: adds_def)
  then have "remdups_adj (map backend_of (concat news)) = remdups_adj (configured cfg)"
    by (rule remdups_adj_blocks)
  then show "remdups_adj (map backend_of (journal_since s (snd (uploadAll cfg env file s)))) = configured cfg"
    using js by (simp add: remdups_adj_distinct distinct_configured)
  have "list_all2 (\<lambda>k new. payloads new = replicate (length (payloads new)) (filename file, content file)) (configured cfg) news"
    using a by (rule list_all2_mono) (simp add: adds_def)
  then show "payloads (journal_since s (snd (uploadAll cfg env file s)))
     = replicate (length (payloads (journal_since s (snd (uploadAll cfg env file s)))))
         (filename file, content file)"
    unfolding js by (rule payloads_blocks)
qed

subsection \<open>Outcomes and entries\<close>

lemma entry_failed: "failed (entry env out) = (case out of Inl e \<Rightarrow> True | Inr r \<Rightarrow> \<not> success r)"
  by (cases out) (simp_all add: failed_def dict_def)

lemma entry_success:
  "map_of (entry env out) ''success'' = Some (JBool True)
     \<or> map_of (entry env out) ''success'' = Some (JBool False)"
  by (cases out) (auto simp: dict_def)

lemma upload_to_s3_success: "fst (upload_to_s3 cfg env file s) = Inr r \<Longrightarrow> success r"
  by (auto simp: upload_to_s3_def io_defs Let_def split: prod.splits sum.splits exn.splits if_splits)

lemma upload_to_gcs_success: "fst (upload_to_gcs cfg env file s) = Inr r \<Longrightarrow> success r"
  by (auto simp: upload_to_gcs_def io_defs Let_def split: prod.splits sum.splits exn.splits if_splits)

lemma upload_to_drive_success: "fst (upload_to_drive cfg env file s) = Inr r \<Longrightarrow> success r"
  by (auto simp: upload_to_drive_def io_defs Let_def split: prod.splits sum.splits exn.splits if_splits option.splits)

lemma invoke_each_outcomes:
  assumes "\<And>k up s. (k, up) \<in> set ups \<Longrightarrow> P (fst (up s))"
  shows "list_all P (map snd (fst (invoke_each ups s)))"
  using assms
proof (induction ups arbitrary: s)
  case Nil
  show ?case by simp
next
  case (Cons a ups)
  obtain k up where a: "a = (k, up)" by (cases a)
  have "list_all P (map snd (fst (invoke_each ups (snd (up (s\<lparr>cursor := 0\<rparr>))))))"
    by (rule Cons.IH) (use Cons.prems in auto)
  moreover have "P (fst (up (s\<lparr>cursor := 0\<rparr>)))"
    using Cons.prems[of k up] a by simp
  ultimately show ?case
    using a by (simp add: invoke_each_Cons del: invoke_each.simps)
qed

lemma uploadAll_outcomes:
  "list_all (\<lambda>out. failed (entry env out) = isl out) (map snd (fst (uploadAll cfg env file s)))"
  unfolding uploadAll_def
proof (rule invoke_each_outcomes)
  fix k up s
  assume "(k, up) \<in> set (filter (\<lambda>a. fst a \<in> set (configured cfg)) (adapters cfg env file))"
  then consider "up = upload_to_s3 cfg env file" | "up = upload_to_gcs cfg env file"
    | "up = upload_to_drive cfg env file"
    by (auto simp: adapters_def split: if_splits)
  then show "failed (entry env (fst (up s))) = isl (fst (up s))"
  proof cases
    case 1
    then show ?thesis
      by (cases "fst (upload_to_s3 cfg env file s)") (auto simp: failed_def dict_def dest: upload_to_s3_success)
  next
    case 2
    then show ?thesis
      by (cases "fst (upload_to_gcs cfg env file s)") (auto simp: failed_def dict_def dest: upload_to_gcs_success)
  next
    case 3
    then show ?thesis
      by (cases "fst (upload_to_drive cfg env file s)") (auto simp: failed_def dict_def dest: upload_to_drive_success)
  qed
qed

lemma results_failed:
  "map failed (map snd (map (\<lambda>(k, out). (k, entry env out)) (fst (uploadAll cfg env file s))))
     = map isl (map snd (fst (uploadAll cfg env file s)))"
  using uploadAll_outcomes[of env cfg "file" s]
  by (induction "fst (uploadAll cfg env file s)") (auto simp: list_all_iff split: prod.splits)

subsection \<open>The fan-out endpoint\<close>

lemmas endpoint_defs = upload_to_all_services_def upload_to_s3_def upload_to_gcs_def
  upload_to_drive_def get_s3_client_def get_gcs_client_def get_drive_service_def
  list_s3_files_def list_gcs_files_def list_drive_files_def

lemmas example_defs = cfg_none_def cfg_only_s3_def cfg_all_def cfg_no_key_def a_txt_def
  fresh_def token_def env_ok_def env_no_link_def env_s3_denied_def load_config_def
  getenv_default_def

text \<open>
  C1. \<open>upload_to_all_services\<close> is the dispatcher of the specification: it returns, never
  raises, and leaves the state \<open>uploadAll\<close> leaves. With N configured backends the result
  has N entries, one per adapter invoked; an entry has \<open>success = False\<close> exactly when
  its adapter raised, so K failures give K such entries; and the library of every
  configured backend is called, whatever the other adapters did.
\<close>

theorem upload_all_attempts_every_backend:
  "\<exists>r. upload_to_all_services cfg env file s = (Inr r, snd (uploadAll cfg env file s))
     \<and> map fst (results r) = map fst (fst (uploadAll cfg env file s))
     \<and> length (results r) = length (configured cfg)
     \<and> map failed (map snd (results r)) = map isl (map snd (fst (uploadAll cfg env file s)))
     \<and> length (filter failed (map snd (results r)))
         = length (filter isl (map snd (fst (uploadAll cfg env file s))))
     \<and> set (map backend_of (journal_since s (snd (uploadAll cfg env file s))))
         = set (configured cfg)"
proof -
  let ?outs = "fst (uploadAll cfg env file s)"
  let ?r = "\<lparr> results = map (\<lambda>(k, out). (k, entry env out)) ?outs \<rparr>"
  have run: "upload_to_all_services cfg env file s = (Inr ?r, snd (uploadAll cfg env file s))"
    by (rule upload_all_refines)
  have keys: "map fst (results ?r) = map fst ?outs"
    by (simp add: case_prod_unfold comp_def)
  have len: "length (results ?r) = length (configured cfg)"
    using uploadAll_keys[of cfg env "file" s] keys by (metis length_map)
  have flags: "map failed (map snd (results ?r)) = map isl (map snd ?outs)"
    using results_failed[of env cfg "file" s] by simp
  have count: "length (filter failed (map snd (results ?r))) = length (filter isl (map snd ?outs))"
  proof -
    have "length (filter failed (map snd (results ?r)))
            = length (filter id (map failed (map snd (results ?r))))"
      by (simp add: filter_map comp_def)
    also have "\<dots> = length (filter id (map isl (map snd ?outs)))"
      by (simp only: flags)
    also have "\<dots> = length (filter isl (map snd ?outs))"
      by (simp add: filter_map comp_def)
    finally show ?thesis .
  qed
  have "set (remdups_adj (map backend_of (journal_since s (snd (uploadAll cfg env file s)))))
          = set (configured cfg)"
    by (simp only: uploadAll_journal_order(2))
  then have called: "set (map backend_of (journal_since s (snd (uploadAll cfg env file s))))
          = set (configured cfg)"
    by simp
  show ?thesis
    using run keys len flags count called by blast
qed

text \<open>
  C8. \<open>upload_to_all_services\<close> never raises, for any configuration, libraries, file and
  state: it returns a mapping whose keys are among s3, gcs and drive and whose every
  value has a boolean \<open>success\<close> field.
\<close>

theorem upload_all_total:
  "\<exists>r. fst (upload_to_all_services cfg env file s) = Inr r
     \<and> set (map fst (results r)) \<subseteq> {''s3'', ''gcs'', ''drive''}
     \<and> list_all (\<lambda>d. map_of d ''success'' = Some (JBool True)
                       \<or> map_of d ''success'' = Some (JBool False)) (map snd (results r))"
proof -
  let ?outs = "fst (uploadAll cfg env file s)"
  let ?r = "\<lparr> results = map (\<lambda>(k, out). (k, entry env out)) ?outs \<rparr>"
  have run: "fst (upload_to_all_services cfg env file s) = Inr ?r"
    by (simp add: upload_all_refines)
  have k: "map fst (results ?r) = configured cfg"
    using uploadAll_keys[of cfg env "file" s] by (simp add: case_prod_unfold comp_def)
  have "set (configured cfg) \<subseteq> {''s3'', ''gcs'', ''drive''}"
    by (auto simp: configured_def)
  then have keys: "set (map fst (results ?r)) \<subseteq> {''s3'', ''gcs'', ''drive''}"
    by (simp only: k)
  have vals: "list_all (\<lambda>d. map_of d ''success'' = Some (JBool True)
                       \<or> map_of d ''success'' = Some (JBool False)) (map snd (results ?r))"
    using entry_success by (fastforce simp: list_all_iff)
  show ?thesis
    using run keys vals by blast
qed

text \<open>
  C7. The keys of the aggregate result are the configured backends in the registration
  order S3, GCS, Drive, and the libraries were called in that same order: the backends
  of the calls made, consecutive repeats merged, are the keys of the result.
\<close>

theorem upload_all_order:
  "\<exists>r. fst (upload_to_all_services cfg env file s) = Inr r
     \<and> map fst (results r) = configured cfg
     \<and> remdups_adj (map backend_of
          (journal_since s (snd (upload_to_all_services cfg env file s)))) = map fst (results r)
     \<and> configured cfg = filter (\<lambda>k. k \<in> set (configured cfg)) [''s3'', ''gcs'', ''drive'']"
proof -
  let ?outs = "fst (uploadAll cfg env file s)"
  let ?r = "\<lparr> results = map (\<lambda>(k, out). (k, entry env out)) ?outs \<rparr>"
  have run: "fst (upload_to_all_services cfg env file s) = Inr ?r"
    by (simp add: upload_all_refines)
  have keys: "map fst (results ?r) = configured cfg"
    using uploadAll_keys[of cfg env "file" s] by (simp add: case_prod_unfold comp_def)
  have order: "remdups_adj (map backend_of
          (journal_since s (snd (upload_to_all_services cfg env file s)))) = map fst (results ?r)"
    using uploadAll_journal_order(2)[of s cfg env "file"] keys
    by (simp add: upload_all_refines)
  have reg: "configured cfg = filter (\<lambda>k. k \<in> set (configured cfg)) [''s3'', ''gcs'', ''drive'']"
    by (simp add: configured_def)
  show ?thesis
    using run keys order reg by blast
qed

text \<open>
  C3. A backend whose configuration is absent is no key of the aggregate result: with no
  backend configured the result is empty, and with S3 alone configured its only key
  is s3.
\<close>

theorem upload_all_skips_unconfigured:
  "\<exists>r. fst (upload_to_all_services cfg env file s) = Inr r
     \<and> (\<not> s3_configured (services (health_check cfg)) \<longrightarrow> ''s3'' \<notin> fst ` set (results r))
     \<and> (\<not> gcs_configured (services (health_check cfg)) \<longrightarrow> ''gcs'' \<notin> fst ` set (results r))
     \<and> (\<not> drive_configured (services (health_check cfg)) \<longrightarrow> ''drive'' \<notin> fst ` set (results r))
     \<and> (\<not> s3_configured (services (health_check cfg))
          \<and> \<not> gcs_configured (services (health_check cfg))
          \<and> \<not> drive_configured (services (health_check cfg)) \<longrightarrow> results r = [])
     \<and> (s3_configured (services (health_check cfg))
          \<and> \<not> gcs_configured (services (health_check cfg))
          \<and> \<not> drive_configured (services (health_check cfg)) \<longrightarrow> map fst (results r) = [''s3''])"
proof -
  let ?outs = "fst (uploadAll cfg env file s)"
  let ?r = "\<lparr> results = map (\<lambda>(k, out). (k, entry env out)) ?outs \<rparr>"
  have run: "fst (upload_to_all_services cfg env file s) = Inr ?r"
    by (simp add: upload_all_refines)
  have keys: "map fst (results ?r) = configured cfg"
    using uploadAll_keys[of cfg env "file" s] by (simp add: case_prod_unfold comp_def)
  have img: "fst ` set (results ?r) = set (configured cfg)"
    using keys by (metis set_map)
  have a: "\<not> s3_configured (services (health_check cfg)) \<longrightarrow> ''s3'' \<notin> fst ` set (results ?r)"
    unfolding img by (simp add: configured_def)
  have b: "\<not> gcs_configured (services (health_check cfg)) \<longrightarrow> ''gcs'' \<notin> fst ` set (results ?r)"
    unfolding img by (simp add: configured_def)
  have c: "\<not> drive_configured (services (health_check cfg)) \<longrightarrow> ''drive'' \<notin> fst ` set (results ?r)"
    unfolding img by (simp add: configured_def)
  have d: "\<not> s3_configured (services (health_check cfg))
          \<and> \<not> gcs_configured (services (health_check cfg))
          \<and> \<not> drive_configured (services (health_check cfg)) \<longrightarrow> results ?r = []"
  proof
    assume "\<not> s3_configured (services (health_check cfg))
          \<and> \<not> gcs_configured (services (health_check cfg))
          \<and> \<not> drive_configured (services (health_check cfg))"
    then have "configured cfg = []" by (simp add: configured_def)
    with keys have "map fst (results ?r) = []" by simp
    then show "results ?r = []" by (simp only: map_is_Nil_conv)
  qed
  have e: "s3_configured (services (health_check cfg))
          \<and> \<not> gcs_configured (services (health_check cfg))
          \<and> \<not> drive_configured (services (health_check cfg)) \<longrightarrow> map fst (results ?r) = [''s3'']"
    unfolding keys by (simp add: configured_def)
  show ?thesis
    by (rule exI[of _ ?r]) (intro conjI run a b c d e)
qed

theorem upload_all_skips_unconfigured_witness:
  "(\<exists>r. fst (upload_to_all_services cfg_none env_ok a_txt fresh) = Inr r \<and> results r = [])
   \<and> (\<exists>r. fst (upload_to_all_services cfg_only_s3 env_ok a_txt fresh) = Inr r
          \<and> map fst (results r) = [''s3'']
          \<and> ''gcs'' \<notin> fst ` set (results r) \<and> ''drive'' \<notin> fst ` set (results r))"
proof -
  have none: "\<not> s3_configured (services (health_check cfg_none))"
    "\<not> gcs_configured (services (health_check cfg_none))"
    "\<not> drive_configured (services (health_check cfg_none))"
    by (simp_all add: health_check_def py_and_def example_defs)
  have only: "s3_configured (services (health_check cfg_only_s3))"
    "\<not> gcs_configured (services (health_check cfg_only_s3))"
    "\<not> drive_configured (services (health_check cfg_only_s3))"
    by (simp_all add: health_check_def py_and_def example_defs)
  show ?thesis
    using upload_all_skips_unconfigured[of cfg_none env_ok a_txt fresh]
      upload_all_skips_unconfigured[of cfg_only_s3 env_ok a_txt fresh] none only
    by auto
qed

text \<open>The scenario of the specification, evaluated.\<close>

lemma upload_all_only_s3_run:
  "fst (upload_to_all_services cfg_only_s3 env_ok a_txt fresh) =
     Inr \<lparr> results = [(''s3'',
       [(''success'', JBool True),
        (''message'', JStr (''File '' @ apos @ ''a.txt'' @ apos @ '' uploaded successfully to S3'')),
        (''file_url'', JStr ''https://bucket.s3.us-east-1.amazonaws.com/a.txt''),
        (''file_id'', JNull)])] \<rparr>"
  by (simp add: endpoint_defs io_defs example_defs py_and_def dict_def)

text \<open>
  One failure among three: S3 refuses the object, and GCS and Drive are attempted and
  succeed all the same.
\<close>

lemma upload_all_s3_denied_run:
  "map (\<lambda>(k, d). (k, map_of d ''success''))
     (results (projr (fst (upload_to_all_services cfg_all env_s3_denied a_txt fresh))))
     = [(''s3'', Some (JBool False)), (''gcs'', Some (JBool True)), (''drive'', Some (JBool True))]
   \<and> map backend_of (calls (snd (upload_to_all_services cfg_all env_s3_denied a_txt fresh)))
     = [''s3'', ''s3'', ''gcs'', ''gcs'', ''drive'', ''drive'', ''drive'', ''drive'']"
  by (simp add: endpoint_defs io_defs example_defs py_and_def dict_def Let_def)

text \<open>
  C4. The health endpoint is a function of the configuration alone (it takes no library
  and no state, so it reaches no backend). Its flags say whether the settings are
  present, that is neither unset nor empty: bucket name and access key for S3, bucket
  name for GCS, credentials file for Drive. With an empty environment all three are
  false.
\<close>

theorem health_reports_configuration:
  "status (health_check cfg) = ''healthy''
   \<and> s3_configured (services (health_check cfg))
       = (S3_BUCKET_NAME cfg \<notin> {None, Some ''''} \<and> AWS_ACCESS_KEY_ID cfg \<notin> {None, Some ''''})
   \<and> gcs_configured (services (health_check cfg)) = (GCS_BUCKET_NAME cfg \<notin> {None, Some ''''})
   \<and> drive_configured (services (health_check cfg))
       = (GOOGLE_DRIVE_CREDENTIALS_FILE cfg \<notin> {None, Some ''''})
   \<and> services (health_check (load_config Map.empty))
       = \<lparr> s3_configured = False, gcs_configured = False, drive_configured = False \<rparr>"
proof -
  have t: "\<And>x. truthy x = (x \<notin> {None, Some ''''})"
    by (case_tac x) simp_all
  show ?thesis
    by (simp add: health_check_def py_and_def load_config_def t)
qed

subsection \<open>Absent configuration\<close>

lemma list_drive_files_journal:
  "\<exists>new. calls (snd (list_drive_files cfg env s)) = calls s @ new \<and> new \<noteq> []
       \<and> set (paths_consulted new) = {''cred/drive/token.json''}"
proof -
  obtain o1 s1 where g: "get_drive_service env s = (o1, s1)" by (cases "get_drive_service env s")
  from get_drive_service_journal[of env s] g obtain new where
    n: "calls s1 = calls s @ new" "new \<noteq> []" "set (paths_consulted new) = {''cred/drive/token.json''}"
    by auto
  show ?thesis
    using g n
    by (cases o1)
       (auto simp: list_drive_files_def io_defs Let_def split: prod.splits sum.splits option.splits)
qed

lemma journal_since_append: "calls s' = calls s @ new \<Longrightarrow> journal_since s s' = new"
  by (simp add: journal_since_def)

text \<open>
  C2, as the code has it. When the bucket name of S3 or of GCS is absent (unset or
  empty), the upload and the list endpoint of that backend raise before any library
  is reached (the state is unchanged), and what they raise is an \<open>HTTPException\<close> of
  status 500, a server error, not a client error. The Drive endpoints have no such
  check: they reach the Drive client whatever the configuration.
\<close>

theorem missing_bucket_is_server_error:
  "(\<not> truthy (S3_BUCKET_NAME cfg) \<longrightarrow>
      upload_to_s3 cfg env file s = (Inl (HTTPException 500 ''S3 bucket name not configured''), s)
      \<and> list_s3_files cfg env s = (Inl (HTTPException 500 ''S3 bucket name not configured''), s))
   \<and> (\<not> truthy (GCS_BUCKET_NAME cfg) \<longrightarrow>
      upload_to_gcs cfg env file s = (Inl (HTTPException 500 ''GCS bucket name not configured''), s)
      \<and> list_gcs_files cfg env s = (Inl (HTTPException 500 ''GCS bucket name not configured''), s))
   \<and> is_server_error 500 \<and> \<not> is_client_error 500
   \<and> journal_since s (snd (upload_to_drive cfg env file s)) \<noteq> []
   \<and> journal_since s (snd (list_drive_files cfg env s)) \<noteq> []"
proof -
  have s3: "\<not> truthy (S3_BUCKET_NAME cfg) \<longrightarrow>
      upload_to_s3 cfg env file s = (Inl (HTTPException 500 ''S3 bucket name not configured''), s)
      \<and> list_s3_files cfg env s = (Inl (HTTPException 500 ''S3 bucket name not configured''), s)"
    by (simp add: upload_to_s3_def list_s3_files_def py_raise_def)
  have gcs: "\<not> truthy (GCS_BUCKET_NAME cfg) \<longrightarrow>
      upload_to_gcs cfg env file s = (Inl (HTTPException 500 ''GCS bucket name not configured''), s)
      \<and> list_gcs_files cfg env s = (Inl (HTTPException 500 ''GCS bucket name not configured''), s)"
    by (simp add: upload_to_gcs_def list_gcs_files_def py_raise_def)
  have codes: "is_server_error 500" "\<not> is_client_error 500"
    by (simp_all add: is_server_error_def is_client_error_def)
  have up: "journal_since s (snd (upload_to_drive cfg env file s)) \<noteq> []"
    using upload_to_drive_journal[of cfg env "file" s]
    by (auto simp: adds_def dest: journal_since_append)
  have ls: "journal_since s (snd (list_drive_files cfg env s)) \<noteq> []"
    using list_drive_files_journal[of cfg env s]
    by (auto dest: journal_since_append)
  show ?thesis
    by (intro conjI s3 gcs codes up ls)
qed

theorem missing_bucket_is_server_error_witness:
  "upload_to_s3 cfg_none env_ok a_txt fresh
     = (Inl (HTTPException 500 ''S3 bucket name not configured''), fresh)
   \<and> list_s3_files cfg_none env_ok fresh
     = (Inl (HTTPException 500 ''S3 bucket name not configured''), fresh)
   \<and> upload_to_gcs cfg_none env_ok a_txt fresh
     = (Inl (HTTPException 500 ''GCS bucket name not configured''), fresh)
   \<and> list_gcs_files cfg_none env_ok fresh
     = (Inl (HTTPException 500 ''GCS bucket name not configured''), fresh)"
proof -
  have "\<not> truthy (S3_BUCKET_NAME cfg_none)" "\<not> truthy (GCS_BUCKET_NAME cfg_none)"
    by (simp_all add: example_defs)
  then show ?thesis
    using missing_bucket_is_server_error[of cfg_none env_ok a_txt fresh] by simp
qed

text \<open>
  C2 as stated fails: with nothing configured the S3 upload answers with status 500,
  which is no client error, and the Drive upload is not refused at all: it reaches the
  Drive client and, the libraries willing, succeeds.
\<close>

theorem unconfigured_backend_counterexample:
  "fst (upload_to_s3 cfg_none env_ok a_txt fresh)
     = Inl (HTTPException 500 ''S3 bucket name not configured'')
   \<and> \<not> is_client_error 500
   \<and> \<not> drive_configured (services (health_check cfg_none))
   \<and> calls (snd (upload_to_drive cfg_none env_ok a_txt fresh)) =
       [Os_path_exists ''cred/drive/token.json'',
        From_authorized_user_file ''cred/drive/token.json''
          [''https://www.googleapis.com/auth/drive.file''],
        Drive_build ''drive'' ''v3'' token,
        Drive_files_create \<lparr> name = Some ''a.txt'', parents = None \<rparr>
          \<lparr> data = ''hello'', mimetype = Some ''text/plain'', resumable = True \<rparr>
          ''id,webViewLink,webContentLink'']
   \<and> isl (fst (upload_to_drive cfg_none env_ok a_txt fresh)) = False"
  by (simp add: endpoint_defs io_defs example_defs py_and_def health_check_def Let_def
      is_client_error_def)

subsection \<open>What reaches the vendor\<close>

lemma journal_since_same [simp]: "journal_since s s = []"
  by (simp add: journal_since_def)

lemma upload_to_s3_payloads:
  "payloads (journal_since s (snd (upload_to_s3 cfg env file s)))
     = replicate (length (payloads (journal_since s (snd (upload_to_s3 cfg env file s)))))
         (filename file, drop (cursor s) (content file))"
proof (cases "truthy (S3_BUCKET_NAME cfg)")
  case True
  from upload_to_s3_journal[OF True, of env "file" s] show ?thesis
    by (auto simp: adds_def dest: journal_since_append)
next
  case False
  then show ?thesis by (simp add: upload_to_s3_def py_raise_def)
qed

lemma upload_to_gcs_payloads:
  "payloads (journal_since s (snd (upload_to_gcs cfg env file s)))
     = replicate (length (payloads (journal_since s (snd (upload_to_gcs cfg env file s)))))
         (filename file, drop (cursor s) (content file))"
proof (cases "truthy (GCS_BUCKET_NAME cfg)")
  case True
  from upload_to_gcs_journal[OF True, of env "file" s] show ?thesis
    by (auto simp: adds_def dest: journal_since_append)
next
  case False
  then show ?thesis by (simp add: upload_to_gcs_def py_raise_def)
qed

lemma upload_to_drive_payloads:
  "payloads (journal_since s (snd (upload_to_drive cfg env file s)))
     = replicate (length (payloads (journal_since s (snd (upload_to_drive cfg env file s)))))
         (filename file, drop (cursor s) (content file))"
  using upload_to_drive_journal[of cfg env "file" s]
  by (auto simp: adds_def dest: journal_since_append)

lemma upload_to_s3_reaches_vendor:
  assumes "truthy (S3_BUCKET_NAME cfg)"
    and "boto3_client env (calls s)
           (Boto3_client (AWS_ACCESS_KEY_ID cfg) (AWS_SECRET_ACCESS_KEY cfg) (AWS_REGION cfg)) = Inr ()"
  shows "journal_since s (snd (upload_to_s3 cfg env file s)) =
           [Boto3_client (AWS_ACCESS_KEY_ID cfg) (AWS_SECRET_ACCESS_KEY cfg) (AWS_REGION cfg),
            S3_put_object (S3_BUCKET_NAME cfg) (filename file) (drop (cursor s) (content file))
              (content_type file)]"
  using assms
  by (auto simp: upload_to_s3_def get_s3_client_def io_defs journal_since_def
      split: prod.splits sum.splits exn.splits)

lemma upload_to_gcs_reaches_vendor:
  assumes "truthy (GCS_BUCKET_NAME cfg)"
    and "\<forall>c. gcs_Client env (calls s) c = Inr ()"
  shows "payloads (journal_since s (snd (upload_to_gcs cfg env file s)))
           = [(filename file, drop (cursor s) (content file))]"
  using assms
  by (auto simp: upload_to_gcs_def get_gcs_client_def io_defs journal_since_def
      split: prod.splits sum.splits exn.splits)

lemma upload_to_drive_reaches_vendor:
  assumes "fst (get_drive_service env s) = Inr ()"
  shows "payloads (journal_since s (snd (upload_to_drive cfg env file s)))
           = [(filename file, drop (cursor s) (content file))]"
proof -
  obtain s1 where g: "get_drive_service env s = (Inr (), s1)"
    using assms by (cases "get_drive_service env s") auto
  from get_drive_service_journal[of env s] g obtain new where
    n: "calls s1 = calls s @ new" "payloads new = []" "cursor s1 = cursor s"
    by auto
  show ?thesis
    using g n
    by (auto simp: upload_to_drive_def io_defs journal_since_def Let_def
        split: prod.splits sum.splits option.splits)
qed

text \<open>
  C6. What reaches a vendor is what was submitted. In the fan-out every upload call of
  every backend carries the file name and the whole content of the request, wherever
  the cursor stood and whatever the earlier adapters read: the cursor is reset before
  each attempt. A single-backend endpoint, entered with the cursor at the start as the
  framework hands the file over, passes the name and the whole content too; and the
  upload call is made as soon as the client is obtained.
\<close>

theorem upload_payload_roundtrip:
  "payloads (journal_since s (snd (upload_to_all_services cfg env file s)))
     = replicate (length (payloads (journal_since s (snd (upload_to_all_services cfg env file s)))))
         (filename file, content file)
   \<and> (cursor s = 0 \<longrightarrow>
        payloads (journal_since s (snd (upload_to_s3 cfg env file s)))
          = replicate (length (payloads (journal_since s (snd (upload_to_s3 cfg env file s)))))
              (filename file, content file)
        \<and> payloads (journal_since s (snd (upload_to_gcs cfg env file s)))
          = replicate (length (payloads (journal_since s (snd (upload_to_gcs cfg env file s)))))
              (filename file, content file)
        \<and> payloads (journal_since s (snd (upload_to_drive cfg env file s)))
          = replicate (length (payloads (journal_since s (snd (upload_to_drive cfg env file s)))))
              (filename file, content file))
   \<and> (cursor s = 0 \<and> truthy (S3_BUCKET_NAME cfg)
        \<and> boto3_client env (calls s)
             (Boto3_client (AWS_ACCESS_KEY_ID cfg) (AWS_SECRET_ACCESS_KEY cfg) (AWS_REGION cfg)) = Inr ()
        \<longrightarrow> payloads (journal_since s (snd (upload_to_s3 cfg env file s)))
              = [(filename file, content file)])
   \<and> (cursor s = 0 \<and> truthy (GCS_BUCKET_NAME cfg) \<and> (\<forall>c. gcs_Client env (calls s) c = Inr ())
        \<longrightarrow> payloads (journal_since s (snd (upload_to_gcs cfg env file s)))
              = [(filename file, content file)])
   \<and> (cursor s = 0 \<and> fst (get_drive_service env s) = Inr ()
        \<longrightarrow> payloads (journal_since s (snd (upload_to_drive cfg env file s)))
              = [(filename file, content file)])"
proof -
  have all: "payloads (journal_since s (snd (upload_to_all_services cfg env file s)))
     = replicate (length (payloads (journal_since s (snd (upload_to_all_services cfg env file s)))))
         (filename file, content file)"
    using uploadAll_journal_order(3)[of s cfg env "file"] by (simp add: upload_all_refines)
  have single: "cursor s = 0 \<longrightarrow>
        payloads (journal_since s (snd (upload_to_s3 cfg env file s)))
          = replicate (length (payloads (journal_since s (snd (upload_to_s3 cfg env file s)))))
              (filename file, content file)
        \<and> payloads (journal_since s (snd (upload_to_gcs cfg env file s)))
          = replicate (length (payloads (journal_since s (snd (upload_to_gcs cfg env file s)))))
              (filename file, content file)
        \<and> payloads (journal_since s (snd (upload_to_drive cfg env file s)))
          = replicate (length (payloads (journal_since s (snd (upload_to_drive cfg env file s)))))
              (filename file, content file)"
    using upload_to_s3_payloads[of s cfg env "file"] upload_to_gcs_payloads[of s cfg env "file"]
      upload_to_drive_payloads[of s cfg env "file"]
    by auto
  have s3: "cursor s = 0 \<and> truthy (S3_BUCKET_NAME cfg)
        \<and> boto3_client env (calls s)
             (Boto3_client (AWS_ACCESS_KEY_ID cfg) (AWS_SECRET_ACCESS_KEY cfg) (AWS_REGION cfg)) = Inr ()
        \<longrightarrow> payloads (journal_since s (snd (upload_to_s3 cfg env file s)))
              = [(filename file, content file)]"
    using upload_to_s3_reaches_vendor[of cfg env s "file"] by auto
  have gcs: "cursor s = 0 \<and> truthy (GCS_BUCKET_NAME cfg) \<and> (\<forall>c. gcs_Client env (calls s) c = Inr ())
        \<longrightarrow> payloads (journal_since s (snd (upload_to_gcs cfg env file s)))
              = [(filename file, content file)]"
    using upload_to_gcs_reaches_vendor[of cfg env s "file"] by auto
  have drive: "cursor s = 0 \<and> fst (get_drive_service env s) = Inr ()
        \<longrightarrow> payloads (journal_since s (snd (upload_to_drive cfg env file s)))
              = [(filename file, content file)]"
    using upload_to_drive_reaches_vendor[of env s cfg "file"] by auto
  show ?thesis
    by (intro conjI all single s3 gcs drive)
qed

theorem upload_payload_roundtrip_witness:
  "payloads (journal_since fresh (snd (upload_to_all_services cfg_all env_ok a_txt fresh)))
     = [(Some ''a.txt'', ''hello''), (Some ''a.txt'', ''hello''), (Some ''a.txt'', ''hello'')]
   \<and> payloads (journal_since fresh (snd (upload_to_s3 cfg_all env_ok a_txt fresh)))
     = [(Some ''a.txt'', ''hello'')]
   \<and> payloads (journal_since fresh (snd (upload_to_gcs cfg_all env_ok a_txt fresh)))
     = [(Some ''a.txt'', ''hello'')]
   \<and> payloads (journal_since fresh (snd (upload_to_drive cfg_all env_ok a_txt fresh)))
     = [(Some ''a.txt'', ''hello'')]"
proof -
  have all: "length (payloads (journal_since fresh
               (snd (upload_to_all_services cfg_all env_ok a_txt fresh)))) = 3"
    by (simp add: endpoint_defs io_defs example_defs py_and_def dict_def journal_since_def Let_def)
  have hyps: "cursor fresh = 0" "truthy (S3_BUCKET_NAME cfg_all)" "truthy (GCS_BUCKET_NAME cfg_all)"
    "boto3_client env_ok (calls fresh)
       (Boto3_client (AWS_ACCESS_KEY_ID cfg_all) (AWS_SECRET_ACCESS_KEY cfg_all) (AWS_REGION cfg_all))
       = Inr ()"
    "\<forall>c. gcs_Client env_ok (calls fresh) c = Inr ()"
    "fst (get_drive_service env_ok fresh) = Inr ()"
    by (simp_all add: get_drive_service_def io_defs example_defs Let_def)
  have req: "filename a_txt = Some ''a.txt''" "content a_txt = ''hello''"
    by (simp_all add: a_txt_def)
  show ?thesis
    using upload_payload_roundtrip[of fresh cfg_all env_ok a_txt] all hyps req
    by (simp add: numeral_3_eq_3)
qed

text \<open>
  Why the reset matters: a successful S3 upload leaves the cursor at the end of the
  file, and a GCS upload entered there would pass no bytes.
\<close>

lemma gcs_after_s3_without_reset:
  "cursor (snd (upload_to_s3 cfg_all env_ok a_txt fresh)) = 5
   \<and> payloads (journal_since (snd (upload_to_s3 cfg_all env_ok a_txt fresh))
        (snd (upload_to_gcs cfg_all env_ok a_txt (snd (upload_to_s3 cfg_all env_ok a_txt fresh)))))
      = [(Some ''a.txt'', '''')]"
  by (simp add: endpoint_defs io_defs example_defs journal_since_def)

text \<open>
  C10. With the bucket name set and the access key absent, health reports S3 as not
  configured and the fan-out skips it (no s3 key, no call to the S3 library), while the
  single-backend endpoint goes on to the S3 client: its first act is to build the
  client with the absent key. It raises only if a call into the S3 library raises; if
  the library answers, the upload succeeds.
\<close>

theorem s3_configured_asymmetry:
  "truthy (S3_BUCKET_NAME cfg) \<and> \<not> truthy (AWS_ACCESS_KEY_ID cfg) \<longrightarrow>
     \<not> s3_configured (services (health_check cfg))
     \<and> (\<exists>r. fst (upload_to_all_services cfg env file s) = Inr r \<and> ''s3'' \<notin> fst ` set (results r))
     \<and> ''s3'' \<notin> set (map backend_of (journal_since s (snd (upload_to_all_services cfg env file s))))
     \<and> (\<exists>rest. journal_since s (snd (upload_to_s3 cfg env file s)) =
           Boto3_client (AWS_ACCESS_KEY_ID cfg) (AWS_SECRET_ACCESS_KEY cfg) (AWS_REGION cfg) # rest)
     \<and> (isl (fst (upload_to_s3 cfg env file s)) =
           (isl (boto3_client env (calls s)
                  (Boto3_client (AWS_ACCESS_KEY_ID cfg) (AWS_SECRET_ACCESS_KEY cfg) (AWS_REGION cfg)))
            \<or> isl (s3_put_object env
                  (calls s @ [Boto3_client (AWS_ACCESS_KEY_ID cfg) (AWS_SECRET_ACCESS_KEY cfg) (AWS_REGION cfg)])
                  (S3_put_object (S3_BUCKET_NAME cfg) (filename file)
                     (drop (cursor s) (content file)) (content_type file)))))"
proof
  assume a: "truthy (S3_BUCKET_NAME cfg) \<and> \<not> truthy (AWS_ACCESS_KEY_ID cfg)"
  then have flag: "\<not> s3_configured (services (health_check cfg))"
    by (simp add: health_check_def py_and_def)
  then have nc: "''s3'' \<notin> set (configured cfg)"
    by (simp add: configured_def)
  let ?outs = "fst (uploadAll cfg env file s)"
  let ?r = "\<lparr> results = map (\<lambda>(k, out). (k, entry env out)) ?outs \<rparr>"
  have run: "fst (upload_to_all_services cfg env file s) = Inr ?r"
    by (simp add: upload_all_refines)
  have keys: "map fst (results ?r) = configured cfg"
    using uploadAll_keys[of cfg env "file" s] by (simp add: case_prod_unfold comp_def)
  have "fst ` set (results ?r) = set (configured cfg)"
    using keys by (metis set_map)
  with nc have absent: "''s3'' \<notin> fst ` set (results ?r)"
    by simp
  have skip: "\<exists>r. fst (upload_to_all_services cfg env file s) = Inr r \<and> ''s3'' \<notin> fst ` set (results r)"
    by (rule exI[of _ ?r]) (intro conjI run absent)
  have "set (remdups_adj (map backend_of (journal_since s (snd (uploadAll cfg env file s)))))
          = set (configured cfg)"
    by (simp only: uploadAll_journal_order(2))
  then have "set (map backend_of (journal_since s (snd (uploadAll cfg env file s))))
          = set (configured cfg)"
    by simp
  with nc have quiet: "''s3'' \<notin> set (map backend_of
      (journal_since s (snd (upload_to_all_services cfg env file s))))"
    by (simp add: upload_all_refines)
  have first: "\<exists>rest. journal_since s (snd (upload_to_s3 cfg env file s)) =
           Boto3_client (AWS_ACCESS_KEY_ID cfg) (AWS_SECRET_ACCESS_KEY cfg) (AWS_REGION cfg) # rest"
    using a
    by (auto simp: upload_to_s3_def get_s3_client_def io_defs journal_since_def
        split: prod.splits sum.splits exn.splits)
  have only: "isl (fst (upload_to_s3 cfg env file s)) =
           (isl (boto3_client env (calls s)
                  (Boto3_client (AWS_ACCESS_KEY_ID cfg) (AWS_SECRET_ACCESS_KEY cfg) (AWS_REGION cfg)))
            \<or> isl (s3_put_object env
                  (calls s @ [Boto3_client (AWS_ACCESS_KEY_ID cfg) (AWS_SECRET_ACCESS_KEY cfg) (AWS_REGION cfg)])
                  (S3_put_object (S3_BUCKET_NAME cfg) (filename file)
                     (drop (cursor s) (content file)) (content_type file))))"
    using a
    by (auto simp: upload_to_s3_def get_s3_client_def io_defs
        split: prod.splits sum.splits exn.splits)
  show "\<not> s3_configured (services (health_check cfg))
     \<and> (\<exists>r. fst (upload_to_all_services cfg env file s) = Inr r \<and> ''s3'' \<notin> fst ` set (results r))
     \<and> ''s3'' \<notin> set (map backend_of (journal_since s (snd (upload_to_all_services cfg env file s))))
     \<and> (\<exists>rest. journal_since s (snd (upload_to_s3 cfg env file s)) =
           Boto3_client (AWS_ACCESS_KEY_ID cfg) (AWS_SECRET_ACCESS_KEY cfg) (AWS_REGION cfg) # rest)
     \<and> (isl (fst (upload_to_s3 cfg env file s)) =
           (isl (boto3_client env (calls s)
                  (Boto3_client (AWS_ACCESS_KEY_ID cfg) (AWS_SECRET_ACCESS_KEY cfg) (AWS_REGION cfg)))
            \<or> isl (s3_put_object env
                  (calls s @ [Boto3_client (AWS_ACCESS_KEY_ID cfg) (AWS_SECRET_ACCESS_KEY cfg) (AWS_REGION cfg)])
                  (S3_put_object (S3_BUCKET_NAME cfg) (filename file)
                     (drop (cursor s) (content file)) (content_type file)))))"
    by (intro conjI flag skip quiet first only)
qed

theorem s3_configured_asymmetry_witness:
  "truthy (S3_BUCKET_NAME cfg_no_key) \<and> \<not> truthy (AWS_ACCESS_KEY_ID cfg_no_key)
   \<and> \<not> s3_configured (services (health_check cfg_no_key))
   \<and> (\<exists>r. fst (upload_to_all_services cfg_no_key env_ok a_txt fresh) = Inr r
          \<and> ''s3'' \<notin> fst ` set (results r))
   \<and> (\<exists>rest. journal_since fresh (snd (upload_to_s3 cfg_no_key env_ok a_txt fresh)) =
          Boto3_client None None ''us-east-1'' # rest)
   \<and> isl (fst (upload_to_s3 cfg_no_key env_ok a_txt fresh)) = False"
proof -
  have h: "truthy (S3_BUCKET_NAME cfg_no_key) \<and> \<not> truthy (AWS_ACCESS_KEY_ID cfg_no_key)"
    by (simp add: example_defs)
  have c: "AWS_ACCESS_KEY_ID cfg_no_key = None" "AWS_SECRET_ACCESS_KEY cfg_no_key = None"
    "AWS_REGION cfg_no_key = ''us-east-1''"
    by (simp_all add: example_defs)
  have e: "\<And>h c. boto3_client env_ok h c = Inr ()" "\<And>h c. s3_put_object env_ok h c = Inr ()"
    by (simp_all add: env_ok_def)
  show ?thesis
    using s3_configured_asymmetry[of cfg_no_key env_ok a_txt fresh] h c e
    by simp
qed

subsection \<open>Single-backend uploads\<close>




subsection \<open>The Drive credential settings\<close>

text \<open>
  C9, as the code has it. No endpoint reads \<open>GOOGLE_DRIVE_TOKEN_FILE\<close>, and
  \<open>GOOGLE_DRIVE_CREDENTIALS_FILE\<close> is read only by the fan-out and the health endpoint,
  and only for its truthiness. The Drive adapter behaves the same whatever the two
  settings are; the only path of the file system it consults is the hardcoded
  \<open>cred/drive/token.json\<close> (the path \<open>cred/drive/credentials.json\<close> is named in the code
  and never read).
\<close>

theorem drive_ignores_credential_settings:
  "upload_to_drive (cfg\<lparr>GOOGLE_DRIVE_CREDENTIALS_FILE := a, GOOGLE_DRIVE_TOKEN_FILE := b\<rparr>) env file s
     = upload_to_drive cfg env file s
   \<and> list_drive_files (cfg\<lparr>GOOGLE_DRIVE_CREDENTIALS_FILE := a, GOOGLE_DRIVE_TOKEN_FILE := b\<rparr>) env s
     = list_drive_files cfg env s
   \<and> set (paths_consulted (journal_since s (snd (upload_to_drive cfg env file s))))
     = {''cred/drive/token.json''}
   \<and> set (paths_consulted (journal_since s (snd (list_drive_files cfg env s))))
     = {''cred/drive/token.json''}
   \<and> upload_to_s3 (cfg\<lparr>GOOGLE_DRIVE_CREDENTIALS_FILE := a, GOOGLE_DRIVE_TOKEN_FILE := b\<rparr>) env file s
     = upload_to_s3 cfg env file s
   \<and> upload_to_gcs (cfg\<lparr>GOOGLE_DRIVE_CREDENTIALS_FILE := a, GOOGLE_DRIVE_TOKEN_FILE := b\<rparr>) env file s
     = upload_to_gcs cfg env file s
   \<and> list_s3_files (cfg\<lparr>GOOGLE_DRIVE_CREDENTIALS_FILE := a, GOOGLE_DRIVE_TOKEN_FILE := b\<rparr>) env s
     = list_s3_files cfg env s
   \<and> list_gcs_files (cfg\<lparr>GOOGLE_DRIVE_CREDENTIALS_FILE := a, GOOGLE_DRIVE_TOKEN_FILE := b\<rparr>) env s
     = list_gcs_files cfg env s
   \<and> upload_to_all_services (cfg\<lparr>GOOGLE_DRIVE_TOKEN_FILE := b\<rparr>) env file s
     = upload_to_all_services cfg env file s
   \<and> health_check (cfg\<lparr>GOOGLE_DRIVE_TOKEN_FILE := b\<rparr>) = health_check cfg
   \<and> (truthy a = truthy (GOOGLE_DRIVE_CREDENTIALS_FILE cfg) \<longrightarrow>
        upload_to_all_services (cfg\<lparr>GOOGLE_DRIVE_CREDENTIALS_FILE := a\<rparr>) env file s
          = upload_to_all_services cfg env file s
        \<and> health_check (cfg\<lparr>GOOGLE_DRIVE_CREDENTIALS_FILE := a\<rparr>) = health_check cfg)"
proof -
  let ?cfg = "cfg\<lparr>GOOGLE_DRIVE_CREDENTIALS_FILE := a, GOOGLE_DRIVE_TOKEN_FILE := b\<rparr>"
  have s3': "\<And>c. upload_to_s3 (c\<lparr>GOOGLE_DRIVE_CREDENTIALS_FILE := a\<rparr>) env file = upload_to_s3 c env file"
      "\<And>c. upload_to_s3 (c\<lparr>GOOGLE_DRIVE_TOKEN_FILE := b\<rparr>) env file = upload_to_s3 c env file"
    by (simp_all add: upload_to_s3_def get_s3_client_def)
  have gcs': "\<And>c. upload_to_gcs (c\<lparr>GOOGLE_DRIVE_CREDENTIALS_FILE := a\<rparr>) env file = upload_to_gcs c env file"
      "\<And>c. upload_to_gcs (c\<lparr>GOOGLE_DRIVE_TOKEN_FILE := b\<rparr>) env file = upload_to_gcs c env file"
    by (simp_all add: upload_to_gcs_def get_gcs_client_def)
  have drive': "\<And>c. upload_to_drive (c\<lparr>GOOGLE_DRIVE_CREDENTIALS_FILE := a\<rparr>) env file = upload_to_drive c env file"
      "\<And>c. upload_to_drive (c\<lparr>GOOGLE_DRIVE_TOKEN_FILE := b\<rparr>) env file = upload_to_drive c env file"
    by (simp_all add: upload_to_drive_def)
  have up: "upload_to_drive ?cfg env file s = upload_to_drive cfg env file s"
    by (simp add: drive')
  have ls: "list_drive_files ?cfg env s = list_drive_files cfg env s"
    by (simp add: list_drive_files_def)
  have p1: "set (paths_consulted (journal_since s (snd (upload_to_drive cfg env file s))))
     = {''cred/drive/token.json''}"
    using upload_to_drive_journal[of cfg env "file" s]
    by (auto dest: journal_since_append)
  have p2: "set (paths_consulted (journal_since s (snd (list_drive_files cfg env s))))
     = {''cred/drive/token.json''}"
    using list_drive_files_journal[of cfg env s]
    by (auto dest: journal_since_append)
  have s3: "upload_to_s3 ?cfg env file s = upload_to_s3 cfg env file s"
    by (simp add: s3')
  have gcs: "upload_to_gcs ?cfg env file s = upload_to_gcs cfg env file s"
    by (simp add: gcs')
  have l3: "list_s3_files ?cfg env s = list_s3_files cfg env s"
    by (simp add: list_s3_files_def get_s3_client_def)
  have lg: "list_gcs_files ?cfg env s = list_gcs_files cfg env s"
    by (simp add: list_gcs_files_def get_gcs_client_def)
  have allb: "upload_to_all_services (cfg\<lparr>GOOGLE_DRIVE_TOKEN_FILE := b\<rparr>) env file s
     = upload_to_all_services cfg env file s"
    unfolding upload_to_all_services_def s3' gcs' drive' by simp
  have hb: "health_check (cfg\<lparr>GOOGLE_DRIVE_TOKEN_FILE := b\<rparr>) = health_check cfg"
    by (simp add: health_check_def)
  have ca: "truthy a = truthy (GOOGLE_DRIVE_CREDENTIALS_FILE cfg) \<longrightarrow>
        upload_to_all_services (cfg\<lparr>GOOGLE_DRIVE_CREDENTIALS_FILE := a\<rparr>) env file s
          = upload_to_all_services cfg env file s
        \<and> health_check (cfg\<lparr>GOOGLE_DRIVE_CREDENTIALS_FILE := a\<rparr>) = health_check cfg"
    unfolding upload_to_all_services_def s3' gcs' drive' by (simp add: health_check_def)
  show ?thesis
    by (intro conjI up ls p1 p2 s3 gcs l3 lg allb hb ca)
qed


theorem drive_ignores_credential_settings_witness:
  "upload_to_all_services (cfg_all\<lparr>GOOGLE_DRIVE_CREDENTIALS_FILE := Some ''other.json''\<rparr>)
     env_ok a_txt fresh = upload_to_all_services cfg_all env_ok a_txt fresh
   \<and> health_check (cfg_all\<lparr>GOOGLE_DRIVE_CREDENTIALS_FILE := Some ''other.json''\<rparr>)
     = health_check cfg_all
   \<and> upload_to_drive
       (cfg_all\<lparr>GOOGLE_DRIVE_CREDENTIALS_FILE := Some ''other.json'', GOOGLE_DRIVE_TOKEN_FILE := ''t.json''\<rparr>)
       env_ok a_txt fresh = upload_to_drive cfg_all env_ok a_txt fresh"
proof -
  have "truthy (Some ''other.json'') = truthy (GOOGLE_DRIVE_CREDENTIALS_FILE cfg_all)"
    by (simp add: example_defs)
  then show ?thesis
    using drive_ignores_credential_settings[of "''t.json''" "Some ''other.json''" cfg_all env_ok a_txt fresh]
    by simp
qed

text \<open>
  C9 as stated fails in one detail: the Drive client does not read
  \<open>cred/drive/credentials.json\<close>. In a run where every library answers, the paths it
  consults are the token path, twice (existence, then contents).
\<close>

theorem drive_credentials_json_not_read:
  "paths_consulted (calls (snd (upload_to_drive cfg_all env_ok a_txt fresh)))
     = [''cred/drive/token.json'', ''cred/drive/token.json'']
   \<and> ''cred/drive/credentials.json''
       \<notin> set (paths_consulted (calls (snd (upload_to_drive cfg_all env_ok a_txt fresh))))
   \<and> paths_consulted (calls (snd (list_drive_files cfg_all env_ok fresh)))
     = [''cred/drive/token.json'', ''cred/drive/token.json'']"
  by (simp add: endpoint_defs io_defs example_defs Let_def)

end
